theory Spec2Isabelle
  imports Complex_Main "HOL-Library.Sublist"
begin

section \<open>Data model\<close>

text \<open>
  The marketplace keeps two collections, gigs and bids. A document identifier
  (\<^verbatim>\<open>ObjectId\<close>) is a natural number. A collection is the list of its documents in
  insertion order. The caller of an operation is the identifier that the
  authentication middleware resolved (\<^verbatim>\<open>req.user._id\<close>).

  The bid schema is \<^verbatim>\<open>models/Bid.model.js\<close>. The gig schema file is not among the
  sources; the gig record follows the schema table of the README
  (\<^verbatim>\<open>status: 'open' | 'assigned'\<close>, \<^verbatim>\<open>hiredBidId\<close>, \<^verbatim>\<open>timestamps\<close>). Of the timestamps only
  \<^verbatim>\<open>createdAt\<close> of a gig is kept, because the gig listing sorts on it; no modelled
  operation reads the others. A JavaScript number is a real number here: the
  handlers only compare numbers and test them for zero.
\<close>

type_synonym oid = nat

datatype gig_status = Open | Assigned

datatype bid_status = Pending | Hired | Rejected

record gig =
  gig_id :: oid
  title :: string
  description :: string
  budget :: real
  ownerId :: oid
  g_status :: gig_status
  hiredBidId :: "oid option"
  createdAt :: int

record bid =
  bid_id :: oid
  gigId :: oid
  freelancerId :: oid
  message :: string
  price :: real
  b_status :: bid_status

record store =
  gigs :: "gig list"
  bids :: "bid list"

text \<open>
  What a handler does with the response: \<^verbatim>\<open>res.status(c).json({success, message, ...})\<close>
  is \<open>Json c success message data\<close>; \<^verbatim>\<open>next(error)\<close> hands the error to the error
  middleware; \<open>Unhandled\<close> is a handler whose promise rejects without a response
  having been written. References populated in a response body are not expanded.
\<close>

datatype error = Validation_error | Duplicate_key | Store_fault | Regex_error | Transaction_error

datatype data = No_data | Bid_data "bid option" | Gig_data "gig option" | Gig_list nat "gig list"

datatype response =
    Json nat bool "string option" data
  | Next_error error
  | Unhandled error

fun http_status :: "response \<Rightarrow> nat option" where
  "http_status (Json c ok m d) = Some c"
| "http_status (Next_error e) = None"
| "http_status (Unhandled e) = None"

section \<open>Store primitives\<close>

text \<open>
  \<^verbatim>\<open>findById\<close> and \<^verbatim>\<open>findOne\<close> return the first matching document, \<^verbatim>\<open>updateOne\<close> (what
  \<^verbatim>\<open>doc.save()\<close> issues for the modified paths) and \<^verbatim>\<open>deleteOne\<close> act on the first
  matching document, \<^verbatim>\<open>updateMany\<close> and \<^verbatim>\<open>deleteMany\<close> on all of them.
\<close>

definition Bid_findById :: "bid list \<Rightarrow> oid \<Rightarrow> bid option" where
  "Bid_findById bs i = find (\<lambda>b. bid_id b = i) bs"

definition Gig_findById :: "gig list \<Rightarrow> oid \<Rightarrow> gig option" where
  "Gig_findById gs i = find (\<lambda>g. gig_id g = i) gs"

fun updateOne :: "('a \<Rightarrow> bool) \<Rightarrow> ('a \<Rightarrow> 'a) \<Rightarrow> 'a list \<Rightarrow> 'a list" where
  "updateOne p f [] = []"
| "updateOne p f (x # xs) = (if p x then f x # xs else x # updateOne p f xs)"

fun deleteOne :: "('a \<Rightarrow> bool) \<Rightarrow> 'a list \<Rightarrow> 'a list" where
  "deleteOne p [] = []"
| "deleteOne p (x # xs) = (if p x then xs else x # deleteOne p xs)"

definition updateMany :: "('a \<Rightarrow> bool) \<Rightarrow> ('a \<Rightarrow> 'a) \<Rightarrow> 'a list \<Rightarrow> 'a list" where
  "updateMany p f xs = map (\<lambda>x. if p x then f x else x) xs"

definition deleteMany :: "('a \<Rightarrow> bool) \<Rightarrow> 'a list \<Rightarrow> 'a list" where
  "deleteMany p xs = filter (\<lambda>x. \<not> p x) xs"

section \<open>The hiring transaction\<close>

text \<open>
  \<^verbatim>\<open>hireBid\<close> makes seven store calls. An unexpected store error is the call that
  throws, if any. The writes of \<^verbatim>\<open>hire_transaction\<close> run under the session: they are
  persisted by \<^verbatim>\<open>commitTransaction\<close> and discarded by \<^verbatim>\<open>abortTransaction\<close>, which
  the \<^verbatim>\<open>catch\<close> block calls. The bid is read once more after the commit, inside
  the same \<^verbatim>\<open>try\<close>; an error there reaches the \<^verbatim>\<open>catch\<close> block when the transaction is
  already committed, where \<^verbatim>\<open>abortTransaction\<close> can undo nothing and itself throws.
  The notification pushed to the hired freelancer does not touch the store and is
  left out.
\<close>

datatype hire_call =
  Find_bid | Find_gig | Save_gig | Save_bid | Reject_others | Commit | Reload_bid

definition hire_transaction :: "hire_call option \<Rightarrow> store \<Rightarrow> gig \<Rightarrow> bid \<Rightarrow> store option" where
  "hire_transaction fault s gig bid =
    (if fault = Some Save_gig then None
     else
       let s1 = s\<lparr>gigs := updateOne (\<lambda>g. gig_id g = gig_id gig)
                    (\<lambda>g. g\<lparr>g_status := Assigned, hiredBidId := Some (bid_id bid)\<rparr>) (gigs s)\<rparr>
       in if fault = Some Save_bid then None
       else
         let s2 = s1\<lparr>bids := updateOne (\<lambda>b. bid_id b = bid_id bid)
                      (\<lambda>b. b\<lparr>b_status := Hired\<rparr>) (bids s1)\<rparr>
         in if fault = Some Reject_others then None
         else
           let s3 = s2\<lparr>bids := updateMany
                        (\<lambda>b. gigId b = gig_id gig \<and> bid_id b \<noteq> bid_id bid \<and> b_status b = Pending)
                        (\<lambda>b. b\<lparr>b_status := Rejected\<rparr>) (bids s2)\<rparr>
           in if fault = Some Commit then None else Some s3)"

definition hireBid :: "hire_call option \<Rightarrow> store \<Rightarrow> oid \<Rightarrow> oid \<Rightarrow> response \<times> store" where
  "hireBid fault s caller bidId =
    (if fault = Some Find_bid then (Next_error Store_fault, s)
     else
      (case Bid_findById (bids s) bidId of
         None \<Rightarrow> (Json 404 False (Some ''Bid not found'') No_data, s)
       | Some bid \<Rightarrow>
           if fault = Some Find_gig then (Next_error Store_fault, s)
           else
            (case Gig_findById (gigs s) (gigId bid) of
               None \<Rightarrow> (Json 404 False (Some ''Gig not found'') No_data, s)
             | Some gig \<Rightarrow>
                 if ownerId gig \<noteq> caller
                 then (Json 403 False (Some ''Not authorized to hire for this gig'') No_data, s)
                 else if g_status gig = Assigned
                 then (Json 400 False
                         (Some ''This gig has already been assigned to someone else'') No_data, s)
                 else
                  (case hire_transaction fault s gig bid of
                     None \<Rightarrow> (Next_error Store_fault, s)
                   | Some s' \<Rightarrow>
                       if fault = Some Reload_bid then (Unhandled Transaction_error, s')
                       else (Json 200 True (Some ''Freelancer hired successfully'')
                               (Bid_data (Bid_findById (bids s') (bid_id bid))), s')))))"

section \<open>JavaScript values and the bid schema\<close>

text \<open>
  A field of a request body or query string is \<open>None\<close> when it is omitted
  (\<^verbatim>\<open>undefined\<close>). \<open>or_str v d\<close> and \<open>or_real v d\<close> are \<^verbatim>\<open>v || d\<close>: the empty string, zero
  and \<^verbatim>\<open>undefined\<close> are falsy. A string is a list of ASCII characters, so its length
  is the length JavaScript counts.
\<close>

fun or_str :: "string option \<Rightarrow> string \<Rightarrow> string" where
  "or_str None d = d"
| "or_str (Some v) d = (if v = [] then d else v)"

fun or_real :: "real option \<Rightarrow> real \<Rightarrow> real" where
  "or_real None d = d"
| "or_real (Some v) d = (if v = 0 then d else v)"



definition js_space :: "char \<Rightarrow> bool" where
  "js_space c = (c \<in> set [CHR 0x20, CHR 0x09, CHR 0x0A, CHR 0x0B, CHR 0x0C, CHR 0x0D])"

definition js_trim :: "string \<Rightarrow> string" where
  "js_trim s = rev (dropWhile js_space (rev (dropWhile js_space s)))"

text \<open>
  The validators of the bid schema: \<^verbatim>\<open>message\<close> is trimmed by its setter and must have
  10 to 1000 characters, \<^verbatim>\<open>price\<close> must lie between 1 and 1000000; both are required.
\<close>

definition message_valid :: "string \<Rightarrow> bool" where
  "message_valid m = (10 \<le> length m \<and> length m \<le> 1000)"

definition price_valid :: "real \<Rightarrow> bool" where
  "price_valid p = (1 \<le> p \<and> p \<le> 1000000)"


section \<open>Bid handlers\<close>


text \<open>
  An assignment such as \<^verbatim>\<open>bid.message = message || bid.message\<close> runs the setter of
  the path. Every stored document has passed the validators of its schema when it
  was written, so \<^verbatim>\<open>save()\<close> can only be refused for a path whose value the handler
  has changed; the validators are run on those paths.
\<close>

definition updateBid ::
  "store \<Rightarrow> oid \<Rightarrow> oid \<Rightarrow> string option \<Rightarrow> real option \<Rightarrow> response \<times> store" where
  "updateBid s caller bidId msg prc =
    (case Bid_findById (bids s) bidId of
       None \<Rightarrow> (Json 404 False (Some ''Bid not found'') No_data, s)
     | Some bid \<Rightarrow>
         if freelancerId bid \<noteq> caller
         then (Json 403 False (Some ''Not authorized to update this bid'') No_data, s)
         else if b_status bid \<noteq> Pending
         then (Json 400 False (Some ''Cannot update a bid that is not pending'') No_data, s)
         else
           let m = js_trim (or_str msg (message bid));
               p = or_real prc (price bid)
           in if (m \<noteq> message bid \<and> \<not> message_valid m) \<or> (p \<noteq> price bid \<and> \<not> price_valid p)
              then (Next_error Validation_error, s)
              else
                let s' = s\<lparr>bids := updateOne (\<lambda>b. bid_id b = bid_id bid)
                              (\<lambda>b. b\<lparr>message := m, price := p\<rparr>) (bids s)\<rparr>
                in (Json 200 True (Some ''Bid updated successfully'')
                      (Bid_data (Bid_findById (bids s') (bid_id bid))), s'))"

definition deleteBid :: "store \<Rightarrow> oid \<Rightarrow> oid \<Rightarrow> response \<times> store" where
  "deleteBid s caller bidId =
    (case Bid_findById (bids s) bidId of
       None \<Rightarrow> (Json 404 False (Some ''Bid not found'') No_data, s)
     | Some bid \<Rightarrow>
         if freelancerId bid \<noteq> caller
         then (Json 403 False (Some ''Not authorized to delete this bid'') No_data, s)
         else if b_status bid \<noteq> Pending
         then (Json 400 False (Some ''Cannot delete a bid that is not pending'') No_data, s)
         else (Json 200 True (Some ''Bid deleted successfully'') No_data,
               s\<lparr>bids := deleteOne (\<lambda>b. bid_id b = bid_id bid) (bids s)\<rparr>))"

section \<open>Gig search\<close>

text \<open>
  \<^verbatim>\<open>getGigs\<close> hands the search term to the store as the pattern of a case-insensitive
  regular expression (\<^verbatim>\<open>$regex\<close> with \<^verbatim>\<open>$options: "i"\<close>), which matches anywhere in
  the text. The patterns modelled are those built from ordinary characters and the
  dot, which stands for any character but a line feed. The meaning of a pattern that
  uses another metacharacter is the parameter \<open>ext\<close> (\<open>None\<close>: the store rejects the
  pattern).
\<close>

definition to_lower :: "char \<Rightarrow> char" where
  "to_lower c =
    (case map_of (zip ''ABCDEFGHIJKLMNOPQRSTUVWXYZ'' ''abcdefghijklmnopqrstuvwxyz'') c of
       Some l \<Rightarrow> l
     | None \<Rightarrow> c)"

datatype rx_atom = Lit char | Any_char

definition rx_other_meta :: "char list" where
  "rx_other_meta = CHR 0x5C # ''^$|?*+()[]{}''"

fun rx_parse :: "string \<Rightarrow> rx_atom list option" where
  "rx_parse [] = Some []"
| "rx_parse (c # cs) =
    (if c = CHR ''.'' then map_option ((#) Any_char) (rx_parse cs)
     else if c \<in> set rx_other_meta then None
     else map_option ((#) (Lit c)) (rx_parse cs))"

fun rx_atom_match :: "rx_atom \<Rightarrow> char \<Rightarrow> bool" where
  "rx_atom_match (Lit a) c = (to_lower a = to_lower c)"
| "rx_atom_match Any_char c = (c \<noteq> CHR 0x0A)"

fun rx_prefix :: "rx_atom list \<Rightarrow> string \<Rightarrow> bool" where
  "rx_prefix [] cs = True"
| "rx_prefix (a # as) [] = False"
| "rx_prefix (a # as) (c # cs) = (rx_atom_match a c \<and> rx_prefix as cs)"

fun rx_search :: "rx_atom list \<Rightarrow> string \<Rightarrow> bool" where
  "rx_search as [] = rx_prefix as []"
| "rx_search as (c # cs) = (rx_prefix as (c # cs) \<or> rx_search as cs)"

definition regex_i ::
  "(string \<Rightarrow> (string \<Rightarrow> bool) option) \<Rightarrow> string \<Rightarrow> (string \<Rightarrow> bool) option" where
  "regex_i ext pat = (case rx_parse pat of Some as \<Rightarrow> Some (rx_search as) | None \<Rightarrow> ext pat)"

fun status_name :: "gig_status \<Rightarrow> string" where
  "status_name Open = ''open''"
| "status_name Assigned = ''assigned''"

definition gig_list_response :: "gig list \<Rightarrow> response" where
  "gig_list_response gs =
    (let r = sort_key (\<lambda>g. - createdAt g) gs in Json 200 True None (Gig_list (length r) r))"

definition getGigs ::
  "(string \<Rightarrow> (string \<Rightarrow> bool) option) \<Rightarrow> store \<Rightarrow> string option \<Rightarrow> string option \<Rightarrow> response" where
  "getGigs ext s search status =
    (let wanted = or_str status ''open'' in
     if or_str search [] = []
     then gig_list_response (filter (\<lambda>g. status_name (g_status g) = wanted) (gigs s))
     else
      (case regex_i ext (or_str search []) of
         None \<Rightarrow> Next_error Regex_error
       | Some m \<Rightarrow>
           gig_list_response
             (filter (\<lambda>g. status_name (g_status g) = wanted \<and> (m (title g) \<or> m (description g)))
                (gigs s))))"

text \<open>
  The specification's wording of the search: the text contains the term as a
  substring, letter case ignored.
\<close>

definition ci_contains :: "string \<Rightarrow> string \<Rightarrow> bool" where
  "ci_contains t x = sublist (map to_lower t) (map to_lower x)"

text \<open>A search term without metacharacters.\<close>

definition rx_literal :: "string \<Rightarrow> bool" where
  "rx_literal pat = (\<forall>c \<in> set pat. c \<noteq> CHR ''.'' \<and> c \<notin> set rx_other_meta)"

section \<open>Gig handlers\<close>




definition deleteGig :: "store \<Rightarrow> oid \<Rightarrow> oid \<Rightarrow> response \<times> store" where
  "deleteGig s caller gid =
    (case Gig_findById (gigs s) gid of
       None \<Rightarrow> (Json 404 False (Some ''Gig not found'') No_data, s)
     | Some gig \<Rightarrow>
         if ownerId gig \<noteq> caller
         then (Json 403 False (Some ''Not authorized to delete this gig'') No_data, s)
         else
           let s1 = s\<lparr>bids := deleteMany (\<lambda>b. gigId b = gig_id gig) (bids s)\<rparr>;
               s2 = s1\<lparr>gigs := deleteOne (\<lambda>g. gig_id g = gig_id gig) (gigs s1)\<rparr>
           in (Json 200 True (Some ''Gig and associated bids deleted successfully'') No_data,
               s2))"

section \<open>Reachable states and the hiring invariants\<close>






definition bid_count :: "store \<Rightarrow> oid \<Rightarrow> nat" where
  "bid_count s g = length (filter (\<lambda>b. gigId b = g) (bids s))"

section \<open>Example stores\<close>

text \<open>
  The scenario of the specification: owner 1 posts gig 10 with budget 5000,
  freelancer 2 bids 4000 and freelancer 3 bids 4500. A second gig of owner 4 carries
  one bid of freelancer 2.
\<close>

definition gig10 :: gig where
  "gig10 = \<lparr>gig_id = 10, title = ''Build a React Website'',
            description = ''Need a modern responsive site'', budget = 5000, ownerId = 1,
            g_status = Open, hiredBidId = None, createdAt = 100\<rparr>"

definition gig11 :: gig where
  "gig11 = \<lparr>gig_id = 11, title = ''Internet cafe setup'',
            description = ''Cabling and routers'', budget = 800, ownerId = 4,
            g_status = Open, hiredBidId = None, createdAt = 200\<rparr>"

definition bid20 :: bid where
  "bid20 = \<lparr>bid_id = 20, gigId = 10, freelancerId = 2,
            message = ''I can do it in 2 weeks'', price = 4000, b_status = Pending\<rparr>"

definition bid21 :: bid where
  "bid21 = \<lparr>bid_id = 21, gigId = 10, freelancerId = 3,
            message = ''Five years of React'', price = 4500, b_status = Pending\<rparr>"

definition bid22 :: bid where
  "bid22 = \<lparr>bid_id = 22, gigId = 11, freelancerId = 2,
            message = ''I wire offices daily'', price = 700, b_status = Pending\<rparr>"

definition store0 :: store where
  "store0 = \<lparr>gigs = [gig10, gig11], bids = [bid20, bid21, bid22]\<rparr>"

definition store_hired :: store where
  "store_hired =
     \<lparr>gigs = [gig10\<lparr>g_status := Assigned, hiredBidId := Some 20\<rparr>, gig11],
      bids = [bid20\<lparr>b_status := Hired\<rparr>, bid21\<lparr>b_status := Rejected\<rparr>, bid22]\<rparr>"


section \<open>Facts about the store primitives\<close>

lemma find_updateOne:
  assumes "\<And>x. p (f x) = p x"
  shows "find p (updateOne p f xs) = map_option f (find p xs)"
  using assms by (induction xs) auto

lemma filter_updateOne_untouched:
  assumes "find p xs = Some x" and "\<not> q x" and "\<not> q (f x)"
  shows "filter q (updateOne p f xs) = filter q xs"
  using assms by (induction xs) (auto split: if_splits)

lemma find_Some_holds: "find p xs = Some x \<Longrightarrow> p x \<and> x \<in> set xs"
  by (induction xs) (auto split: if_splits)

lemma filter_updateOne_keep:
  assumes "\<And>x. q (f x) = q x" and "\<And>x. p x \<Longrightarrow> \<not> q x"
  shows "filter q (updateOne p f xs) = filter q xs"
  using assms by (induction xs) auto

lemma filter_updateMany:
  assumes "\<And>x. q (f x) = q x"
  shows "filter q (updateMany p f xs) = updateMany p f (filter q xs)"
  using assms by (induction xs) (auto simp: updateMany_def)

lemma find_updateMany_other:
  assumes "\<And>x. q (f x) = q x" and "\<And>x. q x \<Longrightarrow> \<not> p x"
  shows "find q (updateMany p f xs) = find q xs"
  using assms by (induction xs) (auto simp: updateMany_def)

lemma updateMany_none:
  assumes "\<And>x. x \<in> set xs \<Longrightarrow> \<not> p x"
  shows "updateMany p f xs = xs"
  using assms by (induction xs) (auto simp: updateMany_def)

lemma Bid_findById_Some: "Bid_findById bs i = Some b \<Longrightarrow> bid_id b = i \<and> b \<in> set bs"
  unfolding Bid_findById_def by (rule find_Some_holds)

lemma Gig_findById_Some: "Gig_findById gs i = Some g \<Longrightarrow> gig_id g = i \<and> g \<in> set gs"
  unfolding Gig_findById_def by (rule find_Some_holds)

section \<open>The hire transition\<close>

lemma hire_transaction_None:
  "hire_transaction None s gig bid =
     Some \<lparr>gigs = updateOne (\<lambda>g. gig_id g = gig_id gig)
                   (\<lambda>g. g\<lparr>g_status := Assigned, hiredBidId := Some (bid_id bid)\<rparr>) (gigs s),
           bids = updateMany
                   (\<lambda>b. gigId b = gig_id gig \<and> bid_id b \<noteq> bid_id bid \<and> b_status b = Pending)
                   (\<lambda>b. b\<lparr>b_status := Rejected\<rparr>)
                   (updateOne (\<lambda>b. bid_id b = bid_id bid) (\<lambda>b. b\<lparr>b_status := Hired\<rparr>) (bids s))\<rparr>"
  by (simp add: hire_transaction_def Let_def)

lemma hired_bid_after:
  assumes "Bid_findById bs i = Some bid"
  shows "Bid_findById
           (updateMany (\<lambda>b. gigId b = g \<and> bid_id b \<noteq> i \<and> b_status b = Pending)
              (\<lambda>b. b\<lparr>b_status := Rejected\<rparr>)
              (updateOne (\<lambda>b. bid_id b = i) (\<lambda>b. b\<lparr>b_status := Hired\<rparr>) bs)) i
         = Some (bid\<lparr>b_status := Hired\<rparr>)"
proof -
  have "find (\<lambda>b. bid_id b = i) (updateOne (\<lambda>b. bid_id b = i) (\<lambda>b. b\<lparr>b_status := Hired\<rparr>) bs)
        = Some (bid\<lparr>b_status := Hired\<rparr>)"
    using assms by (simp add: find_updateOne Bid_findById_def)
  then show ?thesis
    by (simp add: Bid_findById_def find_updateMany_other)
qed

text \<open>
  C1. When the bid exists, its gig exists, the caller owns the gig and the gig is
  open, a hire without store error answers 200 with the hired bid; afterwards the
  gig is assigned with \<^verbatim>\<open>hiredBidId\<close> the bid's id, the bid is hired, among the other
  bids exactly the pending ones of this gig have become rejected, and the bids of
  every other gig are as before.
\<close>

theorem C1_hire_success:
  assumes "Bid_findById (bids s) bidId = Some bid"
    and "Gig_findById (gigs s) (gigId bid) = Some gig"
    and "ownerId gig = caller"
    and "g_status gig = Open"
  shows "fst (hireBid None s caller bidId) =
           Json 200 True (Some ''Freelancer hired successfully'')
             (Bid_data (Some (bid\<lparr>b_status := Hired\<rparr>)))
       \<and> Gig_findById (gigs (snd (hireBid None s caller bidId))) (gigId bid) =
           Some (gig\<lparr>g_status := Assigned, hiredBidId := Some bidId\<rparr>)
       \<and> Bid_findById (bids (snd (hireBid None s caller bidId))) bidId =
           Some (bid\<lparr>b_status := Hired\<rparr>)
       \<and> filter (\<lambda>b. bid_id b \<noteq> bidId) (bids (snd (hireBid None s caller bidId))) =
           map (\<lambda>b. if gigId b = gigId bid \<and> b_status b = Pending
                    then b\<lparr>b_status := Rejected\<rparr> else b)
             (filter (\<lambda>b. bid_id b \<noteq> bidId) (bids s))
       \<and> filter (\<lambda>b. gigId b \<noteq> gigId bid) (bids (snd (hireBid None s caller bidId))) =
           filter (\<lambda>b. gigId b \<noteq> gigId bid) (bids s)"
proof -
  let ?rej = "\<lambda>b. gigId b = gigId bid \<and> bid_id b \<noteq> bidId \<and> b_status b = Pending"
  let ?bs1 = "updateOne (\<lambda>b. bid_id b = bidId) (\<lambda>b. b\<lparr>b_status := Hired\<rparr>) (bids s)"
  let ?bs2 = "updateMany ?rej (\<lambda>b. b\<lparr>b_status := Rejected\<rparr>) ?bs1"
  let ?gs = "updateOne (\<lambda>g. gig_id g = gigId bid)
               (\<lambda>g. g\<lparr>g_status := Assigned, hiredBidId := Some bidId\<rparr>) (gigs s)"
  have bid: "bid_id bid = bidId" and gig: "gig_id gig = gigId bid"
    using assms(1,2) Bid_findById_Some Gig_findById_Some by blast+
  have found: "Bid_findById ?bs2 bidId = Some (bid\<lparr>b_status := Hired\<rparr>)"
    using assms(1) by (rule hired_bid_after)
  have run: "hireBid None s caller bidId =
      (Json 200 True (Some ''Freelancer hired successfully'')
         (Bid_data (Some (bid\<lparr>b_status := Hired\<rparr>))), \<lparr>gigs = ?gs, bids = ?bs2\<rparr>)"
    using assms found by (simp add: hireBid_def hire_transaction_None bid gig)
  have g: "Gig_findById ?gs (gigId bid) = Some (gig\<lparr>g_status := Assigned, hiredBidId := Some bidId\<rparr>)"
    using assms(2) by (simp add: Gig_findById_def find_updateOne)
  have others: "filter (\<lambda>b. bid_id b \<noteq> bidId) ?bs2 =
      map (\<lambda>b. if gigId b = gigId bid \<and> b_status b = Pending
               then b\<lparr>b_status := Rejected\<rparr> else b)
        (filter (\<lambda>b. bid_id b \<noteq> bidId) (bids s))"
  proof -
    have "filter (\<lambda>b. bid_id b \<noteq> bidId) ?bs2 =
            updateMany ?rej (\<lambda>b. b\<lparr>b_status := Rejected\<rparr>) (filter (\<lambda>b. bid_id b \<noteq> bidId) ?bs1)"
      by (simp add: filter_updateMany)
    also have "filter (\<lambda>b. bid_id b \<noteq> bidId) ?bs1 = filter (\<lambda>b. bid_id b \<noteq> bidId) (bids s)"
      by (simp add: filter_updateOne_keep)
    finally show ?thesis
      by (simp add: updateMany_def cong: map_cong)
  qed
  have foreign: "filter (\<lambda>b. gigId b \<noteq> gigId bid) ?bs2 = filter (\<lambda>b. gigId b \<noteq> gigId bid) (bids s)"
  proof -
    have "filter (\<lambda>b. gigId b \<noteq> gigId bid) ?bs2 =
            updateMany ?rej (\<lambda>b. b\<lparr>b_status := Rejected\<rparr>) (filter (\<lambda>b. gigId b \<noteq> gigId bid) ?bs1)"
      by (simp add: filter_updateMany)
    also have "\<dots> = filter (\<lambda>b. gigId b \<noteq> gigId bid) ?bs1"
      by (rule updateMany_none) simp
    also have "\<dots> = filter (\<lambda>b. gigId b \<noteq> gigId bid) (bids s)"
      using assms(1) by (intro filter_updateOne_untouched[where x = bid]) (simp_all add: Bid_findById_def)
    finally show ?thesis .
  qed
  show ?thesis
    unfolding run using g found others foreign by simp
qed

theorem C1_hire_success_witness:
  "Bid_findById (bids store0) 20 = Some bid20
   \<and> Gig_findById (gigs store0) (gigId bid20) = Some gig10
   \<and> ownerId gig10 = 1 \<and> g_status gig10 = Open
   \<and> fst (hireBid None store0 1 20) =
       Json 200 True (Some ''Freelancer hired successfully'')
         (Bid_data (Some (bid20\<lparr>b_status := Hired\<rparr>)))
   \<and> Bid_findById (bids (snd (hireBid None store0 1 20))) 20 = Some (bid20\<lparr>b_status := Hired\<rparr>)
   \<and> filter (\<lambda>b. bid_id b \<noteq> 20) (bids (snd (hireBid None store0 1 20))) =
       [bid21\<lparr>b_status := Rejected\<rparr>, bid22]"
proof -
  have h1: "Bid_findById (bids store0) 20 = Some bid20"
    by (simp add: store0_def Bid_findById_def bid20_def)
  have h2: "Gig_findById (gigs store0) (gigId bid20) = Some gig10"
    by (simp add: store0_def Gig_findById_def bid20_def gig10_def)
  have h3: "ownerId gig10 = 1" and h4: "g_status gig10 = Open"
    by (simp_all add: gig10_def)
  have rest: "map (\<lambda>b. if gigId b = gigId bid20 \<and> b_status b = Pending
                        then b\<lparr>b_status := Rejected\<rparr> else b)
                (filter (\<lambda>b. bid_id b \<noteq> 20) (bids store0)) = [bid21\<lparr>b_status := Rejected\<rparr>, bid22]"
    by (simp add: store0_def bid20_def bid21_def bid22_def)
  show ?thesis
    using C1_hire_success [OF h1 h2 h3 h4] h1 h2 h3 h4 rest by simp
qed

section \<open>Failures of the hire operation\<close>

lemma hireBid_precondition_failures:
  assumes "fault \<noteq> Some Find_bid" and "fault \<noteq> Some Find_gig"
  shows "(Bid_findById (bids s) bidId = None \<longrightarrow>
            hireBid fault s caller bidId = (Json 404 False (Some ''Bid not found'') No_data, s))
       \<and> (\<forall>bid. Bid_findById (bids s) bidId = Some bid \<longrightarrow>
            (Gig_findById (gigs s) (gigId bid) = None \<longrightarrow>
               hireBid fault s caller bidId = (Json 404 False (Some ''Gig not found'') No_data, s))
          \<and> (\<forall>gig. Gig_findById (gigs s) (gigId bid) = Some gig \<longrightarrow>
               (ownerId gig \<noteq> caller \<longrightarrow>
                  hireBid fault s caller bidId =
                    (Json 403 False (Some ''Not authorized to hire for this gig'') No_data, s))
             \<and> (ownerId gig = caller \<and> g_status gig = Assigned \<longrightarrow>
                  hireBid fault s caller bidId =
                    (Json 400 False
                       (Some ''This gig has already been assigned to someone else'') No_data, s))))"
  using assms by (simp add: hireBid_def)

lemma hireBid_rollback:
  assumes "fault \<noteq> Some Reload_bid"
    and "http_status (fst (hireBid fault s caller bidId)) \<noteq> Some 200"
  shows "snd (hireBid fault s caller bidId) = s"
  using assms by (auto simp: hireBid_def split: option.splits if_splits)

lemma hireBid_fault_before_commit:
  assumes "fault \<in> {Some Find_bid, Some Find_gig, Some Save_gig, Some Save_bid,
                     Some Reject_others, Some Commit}"
  shows "snd (hireBid fault s caller bidId) = s"
  using assms
  by (auto simp: hireBid_def hire_transaction_def Let_def split: option.splits)

text \<open>
  C3. The four precondition failures answer 404, 404, 403 and 400 and leave the
  store as it was, and so does a store error up to the commit
  (\<open>hireBid_precondition_failures\<close>, \<open>hireBid_rollback\<close>,
  \<open>hireBid_fault_before_commit\<close>). A store error on the read that follows the commit
  is different: the owner of gig 10 hires bid 20, the read fails, no success
  response is written, and the store holds the committed hire.
\<close>

theorem C3_error_after_commit:
  "hireBid (Some Reload_bid) store0 1 20 = (Unhandled Transaction_error, store_hired)
   \<and> store_hired \<noteq> store0"
  by (simp add: hireBid_def hire_transaction_def store0_def store_hired_def Bid_findById_def
      Gig_findById_def gig10_def gig11_def bid20_def bid21_def bid22_def updateMany_def)

section \<open>Order of the checks\<close>

text \<open>
  C10. In bid update, bid delete and hire, a caller who is not the required owner
  of an existing bid (for hire: of the existing gig of an existing bid) gets 403
  whatever the status of the bid or gig, and the store stays as it was; a response
  400 of these operations goes to the bid's freelancer (update, delete) or the gig's
  owner (hire) only.
\<close>

theorem C10_ownership_before_state:
  "(\<forall>bid. Bid_findById (bids s) bidId = Some bid \<and> freelancerId bid \<noteq> caller \<longrightarrow>
       updateBid s caller bidId msg prc =
         (Json 403 False (Some ''Not authorized to update this bid'') No_data, s)
     \<and> deleteBid s caller bidId =
         (Json 403 False (Some ''Not authorized to delete this bid'') No_data, s))
   \<and> (\<forall>bid gig. Bid_findById (bids s) bidId = Some bid
          \<and> Gig_findById (gigs s) (gigId bid) = Some gig \<and> ownerId gig \<noteq> caller \<longrightarrow>
       hireBid None s caller bidId =
         (Json 403 False (Some ''Not authorized to hire for this gig'') No_data, s))
   \<and> (http_status (fst (updateBid s caller bidId msg prc)) = Some 400 \<longrightarrow>
        (\<exists>bid. Bid_findById (bids s) bidId = Some bid \<and> freelancerId bid = caller))
   \<and> (http_status (fst (deleteBid s caller bidId)) = Some 400 \<longrightarrow>
        (\<exists>bid. Bid_findById (bids s) bidId = Some bid \<and> freelancerId bid = caller))
   \<and> (http_status (fst (hireBid fault s caller bidId)) = Some 400 \<longrightarrow>
        (\<exists>bid gig. Bid_findById (bids s) bidId = Some bid
            \<and> Gig_findById (gigs s) (gigId bid) = Some gig \<and> ownerId gig = caller))"
proof -
  have u: "http_status (fst (updateBid s caller bidId msg prc)) = Some 400 \<longrightarrow>
        (\<exists>bid. Bid_findById (bids s) bidId = Some bid \<and> freelancerId bid = caller)"
    by (auto simp: updateBid_def Let_def split: option.splits if_splits)
  have d: "http_status (fst (deleteBid s caller bidId)) = Some 400 \<longrightarrow>
        (\<exists>bid. Bid_findById (bids s) bidId = Some bid \<and> freelancerId bid = caller)"
    by (auto simp: deleteBid_def split: option.splits if_splits)
  have h: "http_status (fst (hireBid fault s caller bidId)) = Some 400 \<longrightarrow>
        (\<exists>bid gig. Bid_findById (bids s) bidId = Some bid
            \<and> Gig_findById (gigs s) (gigId bid) = Some gig \<and> ownerId gig = caller)"
    by (auto simp: hireBid_def split: option.splits if_splits)
  show ?thesis
    using u d h by (simp add: updateBid_def deleteBid_def hireBid_def)
qed

theorem C10_ownership_before_state_witness:
  "Bid_findById (bids store_hired) 20 = Some (bid20\<lparr>b_status := Hired\<rparr>)
   \<and> Gig_findById (gigs store_hired) (gigId (bid20\<lparr>b_status := Hired\<rparr>)) =
       Some (gig10\<lparr>g_status := Assigned, hiredBidId := Some 20\<rparr>)
   \<and> freelancerId (bid20\<lparr>b_status := Hired\<rparr>) \<noteq> 9
   \<and> ownerId (gig10\<lparr>g_status := Assigned, hiredBidId := Some 20\<rparr>) \<noteq> 9
   \<and> updateBid store_hired 9 20 None (Some 10) =
       (Json 403 False (Some ''Not authorized to update this bid'') No_data, store_hired)
   \<and> deleteBid store_hired 9 20 =
       (Json 403 False (Some ''Not authorized to delete this bid'') No_data, store_hired)
   \<and> hireBid None store_hired 9 20 =
       (Json 403 False (Some ''Not authorized to hire for this gig'') No_data, store_hired)
   \<and> http_status (fst (updateBid store_hired 2 20 None (Some 10))) = Some 400
   \<and> http_status (fst (deleteBid store_hired 2 20)) = Some 400
   \<and> http_status (fst (hireBid None store_hired 1 20)) = Some 400
   \<and> (\<exists>bid. Bid_findById (bids store_hired) 20 = Some bid \<and> freelancerId bid = 2)
   \<and> (\<exists>bid gig. Bid_findById (bids store_hired) 20 = Some bid
          \<and> Gig_findById (gigs store_hired) (gigId bid) = Some gig \<and> ownerId gig = 1)"
proof -
  have b: "Bid_findById (bids store_hired) 20 = Some (bid20\<lparr>b_status := Hired\<rparr>)"
    by (simp add: store_hired_def Bid_findById_def bid20_def)
  have g: "Gig_findById (gigs store_hired) (gigId (bid20\<lparr>b_status := Hired\<rparr>)) =
             Some (gig10\<lparr>g_status := Assigned, hiredBidId := Some 20\<rparr>)"
    by (simp add: store_hired_def Gig_findById_def bid20_def gig10_def)
  have f: "freelancerId (bid20\<lparr>b_status := Hired\<rparr>) \<noteq> 9"
    and o: "ownerId (gig10\<lparr>g_status := Assigned, hiredBidId := Some 20\<rparr>) \<noteq> 9"
    by (simp_all add: bid20_def gig10_def)
  have c1: "http_status (fst (updateBid store_hired 2 20 None (Some 10))) = Some 400"
    using b by (simp add: updateBid_def bid20_def)
  have c2: "http_status (fst (deleteBid store_hired 2 20)) = Some 400"
    using b by (simp add: deleteBid_def bid20_def)
  have c3: "http_status (fst (hireBid None store_hired 1 20)) = Some 400"
    using b g by (simp add: hireBid_def gig10_def)
  note stranger = C10_ownership_before_state [of store_hired 20 9 None "Some 10" None]
  note freelancer = C10_ownership_before_state [of store_hired 20 2 None "Some 10" None]
  note owner = C10_ownership_before_state [of store_hired 20 1 None "Some 10" None]
  have w1: "updateBid store_hired 9 20 None (Some 10) =
       (Json 403 False (Some ''Not authorized to update this bid'') No_data, store_hired)
     \<and> deleteBid store_hired 9 20 =
       (Json 403 False (Some ''Not authorized to delete this bid'') No_data, store_hired)"
    using stranger b f by blast
  have w2: "hireBid None store_hired 9 20 =
       (Json 403 False (Some ''Not authorized to hire for this gig'') No_data, store_hired)"
    using stranger b g o by blast
  have w3: "\<exists>bid. Bid_findById (bids store_hired) 20 = Some bid \<and> freelancerId bid = 2"
    using freelancer c1 by blast
  have w4: "\<exists>bid gig. Bid_findById (bids store_hired) 20 = Some bid
          \<and> Gig_findById (gigs store_hired) (gigId bid) = Some gig \<and> ownerId gig = 1"
    using owner c3 by blast
  show ?thesis
    using b g f o c1 c2 c3 w1 w2 w3 w4 by blast
qed

section \<open>Bids in a terminal state\<close>

text \<open>
  C6 as stated fails: a caller who is not the freelancer of a hired bid gets 403, not
  the conflict status 400, when updating it.
\<close>

theorem C6_counterexample:
  "Bid_findById (bids store_hired) 20 = Some (bid20\<lparr>b_status := Hired\<rparr>)
   \<and> b_status (bid20\<lparr>b_status := Hired\<rparr>) \<noteq> Pending
   \<and> http_status (fst (updateBid store_hired 9 20 (Some ''A much better offer'') (Some 10))) =
       Some 403
   \<and> http_status (fst (deleteBid store_hired 9 20)) = Some 403"
  by (simp add: store_hired_def Bid_findById_def bid20_def updateBid_def deleteBid_def)

text \<open>
  C6, amended. Updating or deleting a bid whose status is not pending always fails
  and leaves the store unchanged: with 400 when the caller is the bid's freelancer
  and with 403 otherwise; and for every caller other than the bid's freelancer both
  operations fail with 403, whatever the status, and leave the store unchanged.
\<close>

theorem C6_terminal_bids_immutable:
  assumes "Bid_findById (bids s) bidId = Some bid"
  shows "(b_status bid \<noteq> Pending \<longrightarrow>
            http_status (fst (updateBid s caller bidId msg prc)) =
              Some (if freelancerId bid = caller then 400 else 403)
          \<and> snd (updateBid s caller bidId msg prc) = s
          \<and> http_status (fst (deleteBid s caller bidId)) =
              Some (if freelancerId bid = caller then 400 else 403)
          \<and> snd (deleteBid s caller bidId) = s)
       \<and> (freelancerId bid \<noteq> caller \<longrightarrow>
            http_status (fst (updateBid s caller bidId msg prc)) = Some 403
          \<and> snd (updateBid s caller bidId msg prc) = s
          \<and> http_status (fst (deleteBid s caller bidId)) = Some 403
          \<and> snd (deleteBid s caller bidId) = s)"
  using assms by (simp add: updateBid_def deleteBid_def)

theorem C6_terminal_bids_immutable_witness:
  "Bid_findById (bids store_hired) 21 = Some (bid21\<lparr>b_status := Rejected\<rparr>)
   \<and> b_status (bid21\<lparr>b_status := Rejected\<rparr>) \<noteq> Pending
   \<and> freelancerId (bid21\<lparr>b_status := Rejected\<rparr>) = 3
   \<and> http_status (fst (updateBid store_hired 3 21 (Some ''A much better offer'') (Some 10))) =
       Some 400
   \<and> snd (updateBid store_hired 3 21 (Some ''A much better offer'') (Some 10)) = store_hired
   \<and> http_status (fst (deleteBid store_hired 3 21)) = Some 400
   \<and> snd (deleteBid store_hired 3 21) = store_hired
   \<and> http_status (fst (deleteBid store_hired 9 21)) = Some 403
   \<and> snd (deleteBid store_hired 9 21) = store_hired"
proof -
  have b: "Bid_findById (bids store_hired) 21 = Some (bid21\<lparr>b_status := Rejected\<rparr>)"
    by (simp add: store_hired_def Bid_findById_def bid20_def bid21_def)
  have st: "b_status (bid21\<lparr>b_status := Rejected\<rparr>) \<noteq> Pending"
    and fr: "freelancerId (bid21\<lparr>b_status := Rejected\<rparr>) = 3"
    and nfr: "freelancerId (bid21\<lparr>b_status := Rejected\<rparr>) \<noteq> 9"
    by (simp_all add: bid21_def)
  note own = C6_terminal_bids_immutable [OF b, of 3 "Some ''A much better offer''" "Some 10"]
  note other = C6_terminal_bids_immutable [OF b, of 9 "Some ''A much better offer''" "Some 10"]
  have w1: "http_status (fst (updateBid store_hired 3 21 (Some ''A much better offer'') (Some 10))) =
       Some 400
   \<and> snd (updateBid store_hired 3 21 (Some ''A much better offer'') (Some 10)) = store_hired
   \<and> http_status (fst (deleteBid store_hired 3 21)) = Some 400
   \<and> snd (deleteBid store_hired 3 21) = store_hired"
    using own st fr by simp
  have w2: "http_status (fst (deleteBid store_hired 9 21)) = Some 403
   \<and> snd (deleteBid store_hired 9 21) = store_hired"
    using other nfr by blast
  show ?thesis
    using b st fr w1 w2 by blast
qed

section \<open>Deleting a gig\<close>

lemma deleteOne_distinct_filter:
  assumes "distinct (map k xs)"
  shows "deleteOne (\<lambda>x. k x = i) xs = filter (\<lambda>x. k x \<noteq> i) xs"
  using assms
proof (induction xs)
  case Nil
  then show ?case by simp
next
  case (Cons x xs)
  show ?case
  proof (cases "k x = i")
    case True
    from Cons.prems have "k x \<notin> k ` set xs" by simp
    with True have "\<forall>y \<in> set xs. k y \<noteq> i" by blast
    then have "filter (\<lambda>x. k x \<noteq> i) xs = xs" by (simp add: filter_id_conv)
    with True show ?thesis by simp
  next
    case False
    with Cons show ?thesis by simp
  qed
qed

text \<open>
  C8. When the owner deletes an existing gig (identifiers of gigs being unique, as
  the store guarantees), the answer is 200, the gig is gone and the other gigs stay,
  exactly the bids that reference the gig are removed, and the number of bids that
  reference it is zero afterwards.
\<close>

theorem C8_deleteGig_cascade:
  assumes "distinct (map gig_id (gigs s))"
    and "Gig_findById (gigs s) gid = Some gig"
    and "ownerId gig = caller"
  shows "fst (deleteGig s caller gid) =
           Json 200 True (Some ''Gig and associated bids deleted successfully'') No_data
       \<and> Gig_findById (gigs (snd (deleteGig s caller gid))) gid = None
       \<and> gigs (snd (deleteGig s caller gid)) = filter (\<lambda>g. gig_id g \<noteq> gid) (gigs s)
       \<and> bids (snd (deleteGig s caller gid)) = filter (\<lambda>b. gigId b \<noteq> gid) (bids s)
       \<and> bid_count (snd (deleteGig s caller gid)) gid = 0"
proof -
  have id: "gig_id gig = gid"
    using assms(2) Gig_findById_Some by blast
  have run: "deleteGig s caller gid =
      (Json 200 True (Some ''Gig and associated bids deleted successfully'') No_data,
       \<lparr>gigs = deleteOne (\<lambda>g. gig_id g = gid) (gigs s),
        bids = filter (\<lambda>b. gigId b \<noteq> gid) (bids s)\<rparr>)"
    using assms(2,3) by (simp add: deleteGig_def Let_def id deleteMany_def)
  show ?thesis
    unfolding run
    using assms(1)
    by (simp add: Gig_findById_def deleteOne_distinct_filter find_None_iff bid_count_def)
qed

theorem C8_deleteGig_cascade_witness:
  "distinct (map gig_id (gigs store_hired))
   \<and> Gig_findById (gigs store_hired) 10 = Some (gig10\<lparr>g_status := Assigned, hiredBidId := Some 20\<rparr>)
   \<and> ownerId (gig10\<lparr>g_status := Assigned, hiredBidId := Some 20\<rparr>) = 1
   \<and> snd (deleteGig store_hired 1 10) = \<lparr>gigs = [gig11], bids = [bid22]\<rparr>
   \<and> bid_count (snd (deleteGig store_hired 1 10)) 10 = 0"
proof -
  have d: "distinct (map gig_id (gigs store_hired))"
    by (simp add: store_hired_def gig10_def gig11_def)
  have g: "Gig_findById (gigs store_hired) 10 = Some (gig10\<lparr>g_status := Assigned, hiredBidId := Some 20\<rparr>)"
    by (simp add: store_hired_def Gig_findById_def gig10_def)
  have o: "ownerId (gig10\<lparr>g_status := Assigned, hiredBidId := Some 20\<rparr>) = 1"
    by (simp add: gig10_def)
  have gs: "filter (\<lambda>g. gig_id g \<noteq> 10) (gigs store_hired) = [gig11]"
    by (simp add: store_hired_def gig10_def gig11_def)
  have bs: "filter (\<lambda>b. gigId b \<noteq> 10) (bids store_hired) = [bid22]"
    by (simp add: store_hired_def bid20_def bid21_def bid22_def)
  have "gigs (snd (deleteGig store_hired 1 10)) = [gig11]
      \<and> bids (snd (deleteGig store_hired 1 10)) = [bid22]
      \<and> bid_count (snd (deleteGig store_hired 1 10)) 10 = 0"
    using C8_deleteGig_cascade [OF d g o] gs bs by simp
  then have "snd (deleteGig store_hired 1 10) = \<lparr>gigs = [gig11], bids = [bid22]\<rparr>
      \<and> bid_count (snd (deleteGig store_hired 1 10)) 10 = 0"
    by (cases "snd (deleteGig store_hired 1 10)") simp
  then show ?thesis
    using d g o by blast
qed

section \<open>Creating a bid\<close>







section \<open>Falsy fields of an update\<close>









section \<open>Searching gigs\<close>

lemma rx_parse_literal: "rx_literal pat \<Longrightarrow> rx_parse pat = Some (map Lit pat)"
  by (induction pat) (auto simp: rx_literal_def)

lemma rx_prefix_literal: "rx_prefix (map Lit pat) x = prefix (map to_lower pat) (map to_lower x)"
  by (induction "map Lit pat" x arbitrary: pat rule: rx_prefix.induct) auto

lemma rx_search_literal: "rx_search (map Lit pat) x = ci_contains pat x"
proof (induction x)
  case Nil
  show ?case by (cases pat) (simp_all add: ci_contains_def)
next
  case (Cons c cs)
  have "rx_search (map Lit pat) (c # cs) =
          (prefix (map to_lower pat) (map to_lower (c # cs)) \<or> ci_contains pat cs)"
    using Cons by (simp add: rx_prefix_literal)
  also have "\<dots> = ci_contains pat (c # cs)"
    by (simp add: ci_contains_def sublist_Cons_right)
  finally show ?case .
qed

lemma regex_i_literal: "rx_literal pat \<Longrightarrow> regex_i ext pat = Some (ci_contains pat)"
  by (auto simp: regex_i_def rx_parse_literal rx_search_literal)

lemma ci_contains_empty: "ci_contains [] x"
  by (simp add: ci_contains_def)

lemma getGigs_literal_search:
  assumes "rx_literal (or_str search [])"
  shows "getGigs ext s search status =
           gig_list_response
             (filter (\<lambda>g. status_name (g_status g) = or_str status ''open''
                    \<and> (ci_contains (or_str search []) (title g)
                       \<or> ci_contains (or_str search []) (description g)))
                (gigs s))"
  using assms
  by (simp add: getGigs_def Let_def regex_i_literal ci_contains_empty)

lemma gig_list_response_set:
  "gig_list_response gs = Json 200 True None (Gig_list (length gs) (sort_key (\<lambda>g. - createdAt g) gs))
   \<and> set (sort_key (\<lambda>g. - createdAt g) gs) = set gs"
  by (simp add: gig_list_response_def Let_def)

text \<open>
  C7. For a search term without regular-expression metacharacters the listing is
  what the claim says (\<open>getGigs_literal_search\<close>). The term is however handed to the
  store as a regular expression: the search \<^verbatim>\<open>.net\<close> returns the gig titled
  \<^verbatim>\<open>Internet cafe setup\<close>, whose title and description do not contain \<^verbatim>\<open>.net\<close>.
\<close>

theorem C7_search_term_is_a_pattern:
  "getGigs (\<lambda>pat. None) store0 (Some ''.net'') None = Json 200 True None (Gig_list 1 [gig11])
   \<and> \<not> ci_contains ''.net'' (title gig11)
   \<and> \<not> ci_contains ''.net'' (description gig11)"
proof -
  have run: "getGigs (\<lambda>pat. None) store0 (Some ''.net'') None =
               Json 200 True None (Gig_list 1 [gig11])"
    by code_simp
  have t: "\<not> ci_contains ''.net'' (title gig11)"
    by code_simp
  have d: "\<not> ci_contains ''.net'' (description gig11)"
    by code_simp
  show ?thesis
    using run t d by (intro conjI)
qed

section \<open>The hiring invariants in every reachable state\<close>








subsection \<open>The store after each handler\<close>









subsection \<open>Each handler keeps the invariant\<close>















end
